theory Spec2Isabelle
  imports Main "HOL-Library.List_Lexorder"
begin

section \<open>Python strings\<close>

text \<open>
  A Python \<open>str\<close> is a sequence of Unicode code points; a code point is modelled as a
  natural number and a \<open>str\<close> as a list of them.  \<open>py\<close> turns a literal of the theory
  into such a string, so that \<open>py ''Size''\<close> is the Python literal \<open>"Size"\<close>.  A \<open>bytes\<close>
  object is a list of octets, each a natural number below 256; the model only ever takes the
  length of one or hands it to a library routine.
\<close>

type_synonym pychar = nat
type_synonym pystr = "pychar list"
type_synonym bytes = "nat list"

definition py :: "string \<Rightarrow> pystr" where
  "py s = map of_char s"

definition LF :: pychar where "LF = 10"
definition CR :: pychar where "CR = 13"
definition colon :: pychar where "colon = 58"
definition space :: pychar where "space = 32"
definition slash :: pychar where "slash = 47"
definition dot :: pychar where "dot = 46"

text \<open>
  \<open>str.isspace\<close> on one character and \<open>str.strip()\<close> use CPython's whitespace table:
  U+0009..U+000D, U+001C..U+0020, U+0085, U+00A0, U+1680, U+2000..U+200A, U+2028, U+2029,
  U+202F, U+205F and U+3000.
\<close>

definition isspace :: "pychar \<Rightarrow> bool" where
  "isspace c \<longleftrightarrow>
     c \<in> set [9, 10, 11, 12, 13, 28, 29, 30, 31, 32, 133, 160, 5760,
              8192, 8193, 8194, 8195, 8196, 8197, 8198, 8199, 8200, 8201, 8202,
              8232, 8233, 8239, 8287, 12288]"

text \<open>
  \<open>str.splitlines\<close> breaks at CPython's line boundaries: U+000A..U+000D, U+001C..U+001E,
  U+0085, U+2028 and U+2029.
\<close>

definition is_linebreak :: "pychar \<Rightarrow> bool" where
  "is_linebreak c \<longleftrightarrow> c \<in> set [10, 11, 12, 13, 28, 29, 30, 133, 8232, 8233]"

text \<open>A string that \<open>splitlines\<close> leaves in one piece: it holds no line boundary.\<close>

definition no_linebreak :: "pystr \<Rightarrow> bool" where
  "no_linebreak s \<longleftrightarrow> (\<forall>c\<in>set s. \<not> is_linebreak c)"

definition strip :: "pystr \<Rightarrow> pystr" where
  "strip s = rev (dropWhile isspace (rev (dropWhile isspace s)))"

text \<open>
  \<open>s.splitlines()\<close>: the scan collects a line up to the next line boundary, reads a
  carriage return followed by a line feed as one boundary, and adds no empty last line when
  the text ends in a boundary.  \<open>cur\<close> is the line collected so far.
\<close>

fun splitlines_from :: "pystr \<Rightarrow> pystr \<Rightarrow> pystr list" where
  "splitlines_from cur [] = (if cur = [] then [] else [cur])"
| "splitlines_from cur [c] =
     (if is_linebreak c then [cur] else [cur @ [c]])"
| "splitlines_from cur (c # d # ds) =
     (if is_linebreak c then
        (if c = CR \<and> d = LF then cur # splitlines_from [] ds
         else cur # splitlines_from [] (d # ds))
      else splitlines_from (cur @ [c]) (d # ds))"

definition splitlines :: "pystr \<Rightarrow> pystr list" where
  "splitlines s = splitlines_from [] s"

text \<open>\<open>s.split(sep)\<close> for a one-character separator: always at least one piece.\<close>

fun split_on :: "pychar \<Rightarrow> pystr \<Rightarrow> pystr list" where
  "split_on sep [] = [[]]"
| "split_on sep (c # cs) =
     (if c = sep then [] # split_on sep cs
      else (case split_on sep cs of
              [] \<Rightarrow> [[c]]
            | p # ps \<Rightarrow> (c # p) # ps))"

text \<open>\<open>sep.join(xs)\<close>.\<close>

fun join :: "pystr \<Rightarrow> pystr list \<Rightarrow> pystr" where
  "join sep [] = []"
| "join sep [x] = x"
| "join sep (x # y # ys) = x @ sep @ join sep (y # ys)"

text \<open>\<open>str(n)\<close> for an \<open>int\<close>: decimal digits, with a minus sign below zero.\<close>

fun str_nat :: "nat \<Rightarrow> pystr" where
  "str_nat n = (if n < 10 then [48 + n] else str_nat (n div 10) @ [48 + n mod 10])"

declare str_nat.simps [simp del]

definition str_int :: "int \<Rightarrow> pystr" where
  "str_int i = (if i < 0 then 45 # str_nat (nat (- i)) else str_nat (nat i))"

section \<open>The field parser of \<open>extract_control_fields\<close>\<close>

text \<open>
  The loop over \<open>control_text.splitlines()\<close> keeps two variables.  \<open>entries\<close> is the list
  that is returned; \<open>last\<close> is \<open>None\<close> or a two-element list.  A field line sets
  \<open>last = [key.strip(), val.strip()]\<close> and appends \<open>tuple(last)\<close> to \<open>entries\<close>:
  \<open>tuple\<close> builds a new object from the two strings, and strings are immutable, so the
  later \<open>last[1] += "\n" + raw_line\<close> of a continuation line replaces the second slot of
  the list \<open>last\<close> and leaves the tuple held by \<open>entries\<close> as it was.  The state of the
  loop is therefore the pair of the two variables, updated separately (\<open>last'\<close> stands
  for \<open>last\<close>).
\<close>

type_synonym field = "pystr \<times> pystr"
type_synonym parser_state = "field list \<times> field option"

definition parse_line :: "parser_state \<Rightarrow> pystr \<Rightarrow> parser_state" where
  "parse_line st raw_line =
     (case st of (entries, last') \<Rightarrow>
        if raw_line = [] then (entries, last')
        else if isspace (hd raw_line) \<and> last' \<noteq> None then
          (entries, map_option (\<lambda>(k, v). (k, v @ [LF] @ raw_line)) last')
        else if colon \<notin> set raw_line then (entries, last')
        else
          let key = takeWhile (\<lambda>c. c \<noteq> colon) raw_line;
              val = tl (dropWhile (\<lambda>c. c \<noteq> colon) raw_line);
              new = (strip key, strip val)
          in (entries @ [new], Some new))"

definition parse_fields :: "pystr \<Rightarrow> field list" where
  "parse_fields control_text = fst (foldl parse_line ([], None) (splitlines control_text))"

section \<open>\<open>format_entry\<close>\<close>

definition reserved_keys :: "pystr list" where
  "reserved_keys = [py ''Filename'', py ''Size'', py ''MD5sum'']"

definition field_lines :: "field \<Rightarrow> pystr list" where
  "field_lines kv =
     (case kv of (key, val) \<Rightarrow>
        if LF \<in> set val then
          (case split_on LF val of
             [] \<Rightarrow> []
           | first # rest \<Rightarrow> (key @ py '': '' @ first) # rest)
        else [key @ py '': '' @ val])"

definition format_entry :: "field list \<Rightarrow> pystr \<Rightarrow> int \<Rightarrow> pystr \<Rightarrow> pystr" where
  "format_entry entries filename size' md5hex =
     (let filtered = filter (\<lambda>(k, v). k \<notin> set reserved_keys) entries;
          filtered = filtered @ [(py ''Filename'', filename)];
          filtered = filtered @ [(py ''Size'', str_int size')];
          filtered = filtered @ [(py ''MD5sum'', md5hex)];
          lines = foldl (\<lambda>lines kv. lines @ field_lines kv) [] filtered
      in join [LF] lines @ [LF, LF])"

section \<open>The world outside the script\<close>

text \<open>
  The script calls the \<open>ar\<close> program, \<open>tarfile\<close>, \<open>hashlib\<close>, \<open>bz2\<close> and the codecs.
  Their results are parameters of the model, gathered in a record; a call that can raise
  returns the exception on the left of a sum.  Paths inside the \<open>debs\<close> directory are named
  by their last component, which is what \<open>deb.name\<close> is.

  \<^item> \<open>ar_t deb\<close>: the decoded output of \<open>ar t deb\<close>, as \<open>check_output(..., text=True)\<close>
    returns it;
  \<^item> \<open>ar_p deb member\<close>: the output of \<open>ar p deb member\<close>;
  \<^item> \<open>tar_open mode blob\<close>: whether \<open>tarfile.open(fileobj=..., mode=mode)\<close> opens the
    bytes or raises;
  \<^item> \<open>tar_getmembers mode blob\<close>: the members that \<open>getmembers()\<close> gives on the opened
    tarball, or the exception it raises; each member carries in \<open>member_data\<close> what
    \<open>extractfile(member).read()\<close> gives for it, bytes or an exception;
  \<^item> \<open>decode_replace\<close>: \<open>bytes.decode("utf-8", errors="replace")\<close>, which never raises;
  \<^item> \<open>read_bytes deb\<close>: \<open>deb.read_bytes()\<close>;
  \<^item> \<open>md5_hexdigest\<close>: \<open>hashlib.md5(data).hexdigest()\<close>;
  \<^item> \<open>encode_utf8\<close>: \<open>str.encode("utf-8")\<close>, which raises \<open>UnicodeEncodeError\<close> on a
    string that holds a lone surrogate, as the name of a file does when its bytes are not
    UTF-8;
  \<^item> \<open>bz2_compress\<close>: \<open>bz2.compress\<close>.
\<close>

datatype error =
    RuntimeError pystr
  | ValueError
  | SystemExit pystr
  | CalledProcessError
  | ReadError
  | EOFError
  | UnicodeEncodeError
  | OSError

record tar_member =
  member_name :: pystr
  isfile :: bool
  member_data :: "error + bytes"

record world =
  ar_t :: "pystr \<Rightarrow> error + pystr"
  ar_p :: "pystr \<Rightarrow> pystr \<Rightarrow> error + bytes"
  tar_open :: "pystr \<Rightarrow> bytes \<Rightarrow> error + unit"
  tar_getmembers :: "pystr \<Rightarrow> bytes \<Rightarrow> error + tar_member list"
  decode_replace :: "bytes \<Rightarrow> pystr"
  read_bytes :: "pystr \<Rightarrow> error + bytes"
  md5_hexdigest :: "bytes \<Rightarrow> pystr"
  encode_utf8 :: "pystr \<Rightarrow> error + bytes"
  bz2_compress :: "bytes \<Rightarrow> bytes"

section \<open>\<open>extract_control_fields\<close>\<close>

definition startswith :: "pystr \<Rightarrow> pystr \<Rightarrow> bool" where
  "startswith s prefix \<longleftrightarrow> take (length prefix) s = prefix"

definition endswith :: "pystr \<Rightarrow> pystr \<Rightarrow> bool" where
  "endswith s suffix' \<longleftrightarrow>
     length suffix' \<le> length s \<and> drop (length s - length suffix') s = suffix'"

definition is_control_tar :: "pystr \<Rightarrow> bool" where
  "is_control_tar name' = startswith name' (py ''control.tar.'')"

text \<open>The dictionary lookup \<open>{...}.get(control_member, "r:*")\<close>.\<close>

definition tar_mode :: "pystr \<Rightarrow> pystr" where
  "tar_mode control_member =
     (if control_member = py ''control.tar.gz'' then py ''r:gz''
      else if control_member = py ''control.tar.xz'' then py ''r:xz''
      else if control_member = py ''control.tar.bz2'' then py ''r:bz2''
      else py ''r:*'')"

definition is_control_file :: "tar_member \<Rightarrow> bool" where
  "is_control_file m \<longleftrightarrow> isfile m \<and> last (split_on slash (member_name m)) = py ''control''"

definition extract_control_fields :: "world \<Rightarrow> pystr \<Rightarrow> error + field list" where
  "extract_control_fields w deb =
     (case ar_t w deb of
        Inl e \<Rightarrow> Inl e
      | Inr out \<Rightarrow>
          (case find is_control_tar (splitlines out) of
             None \<Rightarrow> Inl (RuntimeError (py ''No control.tar.* found in '' @ deb))
           | Some control_member \<Rightarrow>
               if control_member = [] then
                 Inl (RuntimeError (py ''No control.tar.* found in '' @ deb))
               else
                 (case ar_p w deb control_member of
                    Inl e \<Rightarrow> Inl e
                  | Inr control_blob \<Rightarrow>
                      (case tar_open w (tar_mode control_member) control_blob of
                         Inl e \<Rightarrow> Inl e
                       | Inr _ \<Rightarrow>
                           (case tar_getmembers w (tar_mode control_member) control_blob of
                              Inl e \<Rightarrow> Inl e
                            | Inr members \<Rightarrow>
                                (case find is_control_file members of
                                   None \<Rightarrow>
                                     Inl (RuntimeError
                                            (py ''control file not found inside '' @ deb))
                                 | Some member \<Rightarrow>
                                     (case member_data member of
                                        Inl e \<Rightarrow> Inl e
                                      | Inr data \<Rightarrow>
                                          Inr (parse_fields (decode_replace w data)))))))))"

section \<open>\<open>build_packages\<close>\<close>

text \<open>
  \<open>Path.suffix\<close>, as pathlib defines it up to Python 3.13: with \<open>i\<close> the index of the last
  dot of the name, the suffix is \<open>name[i:]\<close> when \<open>0 < i < len(name) - 1\<close> and empty otherwise.
\<close>

definition rfind :: "pychar \<Rightarrow> pystr \<Rightarrow> nat option" where
  "rfind c s =
     (case filter (\<lambda>i. s ! i = c) (rev [0..<length s]) of
        [] \<Rightarrow> None
      | i # _ \<Rightarrow> Some i)"

definition suffix :: "pystr \<Rightarrow> pystr" where
  "suffix name' =
     (case rfind dot name' of
        None \<Rightarrow> []
      | Some i \<Rightarrow> if 0 < i \<and> i + 1 < length name' then drop i name' else [])"

text \<open>
  The body of the loop for one archive, and the loop.  \<open>sorted\<close> on paths of one directory
  compares their names, code point by code point, which is the order of lists of numbers.
\<close>

fun build_loop :: "world \<Rightarrow> pystr list \<Rightarrow> pystr list \<Rightarrow> error + pystr list" where
  "build_loop w entries [] = Inr entries"
| "build_loop w entries (deb # debs) =
     (case extract_control_fields w deb of
        Inl e \<Rightarrow> Inl e
      | Inr control \<Rightarrow>
          (case read_bytes w deb of
             Inl e \<Rightarrow> Inl e
           | Inr data \<Rightarrow>
               let md5hex = md5_hexdigest w data;
                   size' = length data;
                   rel = py ''debs/'' @ deb
               in build_loop w (entries @ [format_entry control rel (int size') md5hex]) debs))"

definition build_packages :: "world \<Rightarrow> pystr list \<Rightarrow> error + pystr" where
  "build_packages w deb_dir =
     (case build_loop w [] (sort (filter (\<lambda>p. suffix p = py ''.deb'') deb_dir)) of
        Inl e \<Rightarrow> Inl e
      | Inr entries \<Rightarrow> Inr (concat entries))"

section \<open>\<open>update_release\<close> and \<open>main\<close>\<close>

text \<open>
  The files of the repository root that the script reads and writes.  \<open>debs_dir\<close> holds the
  names of the entries of \<open>root/debs\<close> in the order \<open>iterdir\<close> yields them, or \<open>None\<close> when
  that is not a directory.  \<open>Packages\<close> and \<open>Packages.bz2\<close> are kept as bytes and \<open>Release\<close>
  as the text that \<open>read_text\<close> returns and \<open>write_text\<close> is given; on a POSIX system
  \<open>write_text(s, encoding="utf-8")\<close> stores \<open>s.encode("utf-8")\<close>.
\<close>

record repo =
  debs_dir :: "pystr list option"
  packages :: "bytes option"
  packages_bz2 :: "bytes option"
  release :: "pystr option"

text \<open>
  The \<open>for ... else\<close> loop that collects \<open>header_lines\<close>: it stops after the first line
  whose stripped text is \<open>MD5Sum:\<close>, and appends \<open>MD5Sum:\<close> itself when no line stopped it.
\<close>

fun header_loop :: "pystr list \<Rightarrow> pystr list \<Rightarrow> pystr list" where
  "header_loop header_lines [] = header_lines @ [py ''MD5Sum:'']"
| "header_loop header_lines (line # lines) =
     (let header_lines = header_lines @ [line]
      in if strip line = py ''MD5Sum:'' then header_lines
         else header_loop header_lines lines)"

text \<open>\<open>xs.index(x)\<close>: the first position of \<open>x\<close>, or \<open>ValueError\<close>.\<close>

fun index_of :: "'a list \<Rightarrow> 'a \<Rightarrow> error + nat" where
  "index_of [] x = Inl ValueError"
| "index_of (y # ys) x =
     (if y = x then Inr 0
      else (case index_of ys x of Inl e \<Rightarrow> Inl e | Inr i \<Rightarrow> Inr (Suc i)))"

definition md5_block :: "pystr \<Rightarrow> nat \<Rightarrow> pystr \<Rightarrow> nat \<Rightarrow> pystr" where
  "md5_block new_md5_packages size_packages new_md5_bz2 size_bz2 =
     py '' '' @ new_md5_packages @ py '' '' @ str_int (int size_packages) @
       py '' Packages\<newline>'' @
     py '' '' @ new_md5_bz2 @ py '' '' @ str_int (int size_bz2) @
       py '' Packages.bz2\<newline>''"

definition update_release :: "world \<Rightarrow> repo \<Rightarrow> pystr \<Rightarrow> error + repo" where
  "update_release w fs packages_content =
     (case release fs of
        None \<Rightarrow> Inl OSError
      | Some release_text \<Rightarrow>
          (case encode_utf8 w packages_content of
             Inl e \<Rightarrow> Inl e
           | Inr encoded \<Rightarrow>
               (case packages_bz2 fs of
                  None \<Rightarrow> Inl OSError
                | Some bz2_bytes \<Rightarrow>
                    let new_md5_packages = md5_hexdigest w encoded;
                        new_md5_bz2 = md5_hexdigest w bz2_bytes;
                        size_packages = length encoded;
                        size_bz2 = length bz2_bytes;
                        lines = splitlines release_text;
                        header_lines = header_loop [] lines
                    in (case index_of header_lines (py ''MD5Sum:'') of
                          Inl e \<Rightarrow> Inl e
                        | Inr i \<Rightarrow>
                            let prefix = join [LF] (take i header_lines) @
                                           py ''\<newline>MD5Sum:\<newline>''
                            in Inr (fs\<lparr>release :=
                                      Some (prefix @ md5_block new_md5_packages size_packages
                                                       new_md5_bz2 size_bz2)\<rparr>)))))"

text \<open>
  \<open>main\<close> returns the files as they are when it stops, together with how it stopped: an
  exception raised after a file was written leaves that file written.  \<open>write_text\<close>
  opens \<open>Packages\<close> for writing, which empties it, and then encodes the content: when the
  encoding raises, \<open>Packages\<close> is left empty and \<open>Packages.bz2\<close> is not written.  Errors
  of the file system itself are left out.  The messages of \<open>SystemExit\<close> are given
  without the path that the script appends to them, and the lines printed at the end are
  left out.
\<close>

definition main :: "world \<Rightarrow> repo \<Rightarrow> repo \<times> (error + unit)" where
  "main w fs =
     (case debs_dir fs of
        None \<Rightarrow> (fs, Inl (SystemExit (py ''Missing debs directory'')))
      | Some deb_dir \<Rightarrow>
          (case build_packages w deb_dir of
             Inl e \<Rightarrow> (fs, Inl e)
           | Inr packages_content \<Rightarrow>
               (case encode_utf8 w packages_content of
                  Inl e \<Rightarrow> (fs\<lparr>packages := Some []\<rparr>, Inl e)
                | Inr written \<Rightarrow>
                    let fs1 = fs\<lparr>packages := Some written\<rparr>
                    in (case encode_utf8 w packages_content of
                          Inl e \<Rightarrow> (fs1, Inl e)
                        | Inr encoded \<Rightarrow>
                            let fs2 = fs1\<lparr>packages_bz2 := Some (bz2_compress w encoded)\<rparr>
                            in (case release fs2 of
                                  None \<Rightarrow>
                                    (fs2, Inl (SystemExit (py ''Release file not found'')))
                                | Some _ \<Rightarrow>
                                    (case update_release w fs2 packages_content of
                                       Inl e \<Rightarrow> (fs2, Inl e)
                                     | Inr fs3 \<Rightarrow> (fs3, Inr ())))))))"

section \<open>A sample repository\<close>

text \<open>
  A world in which every archive lists a \<open>control.tar.zst\<close> member, holds three bytes
  and has the digest \<open>0f\<close>; what \<open>tarfile\<close> makes of the control tarball is left open:
  either it cannot open it, or it opens it and gives the members.
\<close>

definition sample_world :: "(error + tar_member list) \<Rightarrow> world" where
  "sample_world tar_result =
     \<lparr>ar_t = (\<lambda>deb. Inr (py ''debian-binary\<newline>control.tar.zst\<newline>data.tar.zst\<newline>'')),
      ar_p = (\<lambda>deb member. Inr [1, 2, 3]),
      tar_open = (\<lambda>mode blob. case tar_result of Inl e \<Rightarrow> Inl e | Inr _ \<Rightarrow> Inr ()),
      tar_getmembers = (\<lambda>mode blob. tar_result),
      decode_replace = (\<lambda>data. py ''Package: x\<newline>''),
      read_bytes = (\<lambda>deb. Inr [33, 60, 97]),
      md5_hexdigest = (\<lambda>data. py ''0f''),
      encode_utf8 = (\<lambda>s. Inr s),
      bz2_compress = (\<lambda>data. data)\<rparr>"

definition sample_members :: "tar_member list" where
  "sample_members =
     [\<lparr>member_name = py ''.'', isfile = False, member_data = Inr []\<rparr>,
      \<lparr>member_name = py ''./control'', isfile = True, member_data = Inr [80]\<rparr>]"

text \<open>
  A repository root with three entries in \<open>debs\<close>, no \<open>Packages\<close> file yet, a
  three-byte \<open>Packages.bz2\<close> and the given \<open>Release\<close> text.
\<close>

definition sample_repo :: "pystr \<Rightarrow> repo" where
  "sample_repo release_text =
     \<lparr>debs_dir = Some [py ''b.deb'', py ''notes.txt'', py ''a.deb''],
      packages = None,
      packages_bz2 = Some [66, 90, 104],
      release = Some release_text\<rparr>"

section \<open>Properties of the string operations and of \<open>format_entry\<close>\<close>

lemma split_on_nonempty: "split_on sep s \<noteq> []"
  by (induction s) (auto split: list.splits)

lemma join_split_on: "join [sep] (split_on sep s) = s"
proof (induction s)
  case Nil
  show ?case by simp
next
  case (Cons c cs)
  show ?case
  proof (cases "split_on sep cs")
    case Nil
    with split_on_nonempty show ?thesis by blast
  next
    case (Cons p ps)
    with Cons.IH show ?thesis
      by (cases ps) (auto split: if_splits)
  qed
qed

lemma join_snoc_sep: "xs \<noteq> [] \<Longrightarrow> join sep xs @ sep = concat (map (\<lambda>x. x @ sep) xs)"
  by (induction sep xs rule: join.induct) auto

lemma join_append:
  "xs \<noteq> [] \<Longrightarrow> ys \<noteq> [] \<Longrightarrow> join sep (xs @ ys) = join sep xs @ sep @ join sep ys"
  by (induction sep xs rule: join.induct) (auto simp: neq_Nil_conv)

lemma field_lines_nonempty: "field_lines kv \<noteq> []"
  using split_on_nonempty [of LF "snd kv"]
  by (cases kv) (auto simp: field_lines_def split: list.splits)

lemma join_field_lines: "join [LF] (field_lines (k, v)) = k @ py '': '' @ v"
proof (cases "LF \<in> set v")
  case False
  then show ?thesis by (simp add: field_lines_def)
next
  case True
  show ?thesis
  proof (cases "split_on LF v")
    case Nil
    with split_on_nonempty show ?thesis by blast
  next
    case (Cons first rest)
    have "join [LF] (first # rest) = v"
      using join_split_on [of LF v] Cons by simp
    then have "join [LF] ((k @ py '': '' @ first) # rest) = k @ py '': '' @ v"
      by (cases rest) auto
    with True Cons show ?thesis by (simp add: field_lines_def)
  qed
qed

lemma foldl_field_lines:
  "foldl (\<lambda>lines kv. lines @ field_lines kv) acc fs = acc @ concat (map field_lines fs)"
  by (induction fs arbitrary: acc) auto

lemma render_fields:
  "join [LF] (concat (map field_lines fs)) @ [LF] =
     (if fs = [] then [LF] else concat (map (\<lambda>(k, v). k @ py '': '' @ v @ [LF]) fs))"
proof (induction fs)
  case Nil
  show ?case by simp
next
  case (Cons kv fs)
  obtain k v where kv: "kv = (k, v)" by (cases kv)
  show ?case
  proof (cases "fs = []")
    case True
    then show ?thesis by (simp add: kv join_field_lines)
  next
    case False
    then have ne: "concat (map field_lines fs) \<noteq> []"
      using field_lines_nonempty by (cases fs) auto
    have "join [LF] (field_lines kv @ concat (map field_lines fs)) =
            join [LF] (field_lines kv) @ [LF] @ join [LF] (concat (map field_lines fs))"
      by (rule join_append [OF field_lines_nonempty ne])
    with Cons.IH False show ?thesis by (simp add: kv join_field_lines)
  qed
qed

lemma format_entry_text:
  "format_entry entries filename size' md5hex =
     concat (map (\<lambda>(k, v). k @ py '': '' @ v @ [LF])
               (filter (\<lambda>(k, v). k \<notin> set reserved_keys) entries @
                [(py ''Filename'', filename), (py ''Size'', str_int size'),
                 (py ''MD5sum'', md5hex)])) @ [LF]"
proof -
  let ?fs = "filter (\<lambda>(k, v). k \<notin> set reserved_keys) entries @
               [(py ''Filename'', filename), (py ''Size'', str_int size'), (py ''MD5sum'', md5hex)]"
  have "format_entry entries filename size' md5hex =
          (join [LF] (concat (map field_lines ?fs)) @ [LF]) @ [LF]"
    by (simp add: format_entry_def Let_def foldl_field_lines)
  also have "\<dots> = concat (map (\<lambda>(k, v). k @ py '': '' @ v @ [LF]) ?fs) @ [LF]"
    by (subst render_fields) simp
  finally show ?thesis .
qed

text \<open>
  Claim C9.  Whatever the field list, the text that \<open>format_entry\<close> returns is the
  rendering \<open>key: value\<close> of the input fields whose key is none of \<open>Filename\<close>,
  \<open>Size\<close>, \<open>MD5sum\<close>, in their order, followed by the three fields \<open>Filename\<close>,
  \<open>Size\<close> and \<open>MD5sum\<close> in that order with the values passed as arguments, and an
  empty line.  So no field of the input with one of these keys reaches the entry, and the
  last three fields are the ones built from the arguments.
\<close>

theorem format_entry_reserved_fields:
  "format_entry entries filename size' md5hex =
     concat (map (\<lambda>(k, v). k @ py '': '' @ v @ [LF])
               (filter (\<lambda>(k, v). k \<noteq> py ''Filename'' \<and> k \<noteq> py ''Size'' \<and> k \<noteq> py ''MD5sum'')
                  entries)) @
     py ''Filename: '' @ filename @ [LF] @
     py ''Size: '' @ str_int size' @ [LF] @
     py ''MD5sum: '' @ md5hex @ [LF] @ [LF]"
  by (simp add: format_entry_text reserved_keys_def py_def)

section \<open>The parser applied to formatted entries\<close>

lemma LF_linebreak: "is_linebreak LF" "LF \<noteq> CR"
  by (simp_all add: is_linebreak_def LF_def CR_def)

lemma splitlines_from_line:
  "no_linebreak l \<Longrightarrow> splitlines_from cur (l @ LF # rest) = (cur @ l) # splitlines_from [] rest"
proof (induction l arbitrary: cur)
  case Nil
  show ?case by (cases rest) (simp_all add: LF_linebreak)
next
  case (Cons c l)
  then have c: "\<not> is_linebreak c" and l: "no_linebreak l"
    by (simp_all add: no_linebreak_def)
  obtain d ds where eq: "l @ LF # rest = d # ds"
    by (cases "l @ LF # rest") auto
  have "splitlines_from cur ((c # l) @ LF # rest) = splitlines_from (cur @ [c]) (l @ LF # rest)"
    using c by (simp add: eq)
  also have "\<dots> = ((cur @ [c]) @ l) # splitlines_from [] rest"
    by (rule Cons.IH [OF l])
  finally show ?case by simp
qed

lemma splitlines_from_lines:
  "\<forall>l\<in>set ls. no_linebreak l \<Longrightarrow>
   splitlines_from [] (concat (map (\<lambda>l. l @ [LF]) ls) @ rest) = ls @ splitlines_from [] rest"
proof (induction ls)
  case Nil
  show ?case by simp
next
  case (Cons l ls)
  then have "splitlines_from [] (l @ LF # (concat (map (\<lambda>l. l @ [LF]) ls) @ rest)) =
      ([] @ l) # splitlines_from [] (concat (map (\<lambda>l. l @ [LF]) ls) @ rest)"
    by (intro splitlines_from_line) simp
  with Cons show ?case by simp
qed

lemma strip_no_space: "\<forall>c\<in>set s. \<not> isspace c \<Longrightarrow> strip s = s"
proof -
  assume a: "\<forall>c\<in>set s. \<not> isspace c"
  have dw: "dropWhile isspace xs = xs" if "\<forall>c\<in>set xs. \<not> isspace c" for xs
    using that by (cases xs) auto
  from a have "dropWhile isspace s = s"
    by (rule dw)
  moreover from a have "dropWhile isspace (rev s) = rev s"
    by (intro dw) simp
  ultimately show ?thesis by (simp add: strip_def)
qed

lemma strip_space_Cons: "isspace c \<Longrightarrow> strip (c # s) = strip s"
  by (simp add: strip_def)

lemma strip_hd: "strip s = s \<Longrightarrow> s \<noteq> [] \<Longrightarrow> \<not> isspace (hd s)"
proof
  assume s: "strip s = s" "s \<noteq> []" and sp: "isspace (hd s)"
  have "length (strip s) \<le> length (dropWhile isspace s)"
    unfolding strip_def length_rev
    by (metis length_dropWhile_le length_rev)
  moreover have "length (dropWhile isspace s) < length s"
    using s(2) sp by (cases s) (auto simp: le_imp_less_Suc length_dropWhile_le)
  ultimately show False using s(1) by simp
qed

lemma parse_line_field:
  assumes "colon \<notin> set k" "strip k = k" "strip v = v"
  shows "parse_line (es, l) (k @ py '': '' @ v) = (es @ [(k, v)], Some (k, v))"
proof -
  let ?line = "k @ py '': '' @ v"
  have py: "py '': '' = [colon, space]" by (simp add: py_def colon_def space_def)
  have ne: "?line \<noteq> []" by (simp add: py)
  have nsp: "\<not> isspace (hd ?line)"
  proof (cases "k = []")
    case True
    then show ?thesis by (simp add: py isspace_def colon_def)
  next
    case False
    with strip_hd [OF assms(2)] show ?thesis by simp
  qed
  have col: "colon \<in> set ?line" by (simp add: py)
  have nc: "\<forall>c\<in>set k. c \<noteq> colon"
    using assms(1) by auto
  have tw: "takeWhile (\<lambda>c. c \<noteq> colon) ?line = k"
    using nc by (simp add: py)
  have dw: "dropWhile (\<lambda>c. c \<noteq> colon) ?line = colon # space # v"
    using nc by (simp add: py)
  have sv: "strip (space # v) = v"
    using assms(3) by (simp add: strip_space_Cons isspace_def space_def)
  show ?thesis
    unfolding parse_line_def
    using ne nsp col by (simp add: tw dw sv assms(2) Let_def del: append_assoc)
qed

lemma foldl_parse_fields:
  "\<forall>(k, v)\<in>set fs. colon \<notin> set k \<and> strip k = k \<and> strip v = v \<Longrightarrow>
   fst (foldl parse_line (es, l) (map (\<lambda>(k, v). k @ py '': '' @ v) fs)) = es @ fs"
proof (induction fs arbitrary: es l)
  case Nil
  show ?case by simp
next
  case (Cons f fs)
  obtain k v where f: "f = (k, v)" by (cases f)
  from Cons.prems f have h: "colon \<notin> set k" "strip k = k" "strip v = v" by auto
  from Cons.prems have rest: "\<forall>(k, v)\<in>set fs. colon \<notin> set k \<and> strip k = k \<and> strip v = v"
    by simp
  show ?case
    using Cons.IH [OF rest] by (simp add: f parse_line_field [OF h])
qed

lemma str_nat_digits: "\<forall>c\<in>set (str_nat n). 48 \<le> c \<and> c \<le> 57"
proof (induction n rule: str_nat.induct)
  case (1 n)
  show ?case
  proof (cases "n < 10")
    case True
    then show ?thesis by (subst str_nat.simps) simp
  next
    case False
    have "n mod 10 < 10" by simp
    then have "48 + n mod 10 \<le> 57" by linarith
    with 1 False show ?thesis by (subst str_nat.simps) simp
  qed
qed

lemma str_int_chars: "\<forall>c\<in>set (str_int i). c = 45 \<or> (48 \<le> c \<and> c \<le> 57)"
  using str_nat_digits by (auto simp: str_int_def)

lemma str_int_plain: "no_linebreak (str_int i)" "strip (str_int i) = str_int i"
proof -
  have sp: "\<forall>c\<in>set (str_int i). \<not> isspace c"
    using str_int_chars [of i] by (auto simp: isspace_def)
  show "no_linebreak (str_int i)"
    using str_int_chars [of i] by (auto simp: no_linebreak_def is_linebreak_def)
  show "strip (str_int i) = str_int i"
    by (rule strip_no_space [OF sp])
qed

lemma no_linebreak_append: "no_linebreak (a @ b) \<longleftrightarrow> no_linebreak a \<and> no_linebreak b"
  by (auto simp: no_linebreak_def)

lemma no_linebreak_sep: "no_linebreak (py '': '')"
  by (simp add: no_linebreak_def py_def is_linebreak_def)

lemma parse_rendered_fields:
  assumes "\<forall>(k, v)\<in>set fs. colon \<notin> set k \<and> no_linebreak k \<and> strip k = k \<and>
                             no_linebreak v \<and> strip v = v"
  shows "parse_fields (concat (map (\<lambda>(k, v). k @ py '': '' @ v @ [LF]) fs) @ [LF]) = fs"
proof -
  let ?line = "\<lambda>(k, v). k @ py '': '' @ v"
  have py: "py '': '' = [colon, space]" by (simp add: py_def colon_def space_def)
  have nl: "\<forall>l\<in>set (map ?line fs). no_linebreak l"
    using assms by (auto simp: no_linebreak_append no_linebreak_sep)
  have eq: "concat (map (\<lambda>(k, v). k @ py '': '' @ v @ [LF]) fs) =
              concat (map (\<lambda>l. l @ [LF]) (map ?line fs))"
    by (induction fs) auto
  have "splitlines (concat (map (\<lambda>(k, v). k @ py '': '' @ v @ [LF]) fs) @ [LF]) =
          map ?line fs @ splitlines_from [] [LF]"
    unfolding splitlines_def eq by (rule splitlines_from_lines [OF nl])
  then have sl: "splitlines (concat (map (\<lambda>(k, v). k @ py '': '' @ v @ [LF]) fs) @ [LF]) =
          map ?line fs @ [[]]"
    by (simp add: LF_linebreak)
  have fields: "\<forall>(k, v)\<in>set fs. colon \<notin> set k \<and> strip k = k \<and> strip v = v"
    using assms by auto
  have "fst (foldl parse_line ([], None) (map ?line fs @ [[]])) =
          fst (foldl parse_line ([], None) (map ?line fs))"
    by (simp add: parse_line_def split: prod.splits)
  also have "\<dots> = [] @ fs"
    by (rule foldl_parse_fields [OF fields])
  finally show ?thesis by (simp add: parse_fields_def sl)
qed

text \<open>
  Claim C10, amended.  Take a field list whose keys are non-empty, hold no colon and no line
  boundary and have no whitespace at either end, and whose values are single lines (no line
  boundary) with no whitespace at either end; take a file name and a digest that are single
  lines with no whitespace at either end.  Then the field parser applied to the text of
  \<open>format_entry\<close> gives back the list without its \<open>Filename\<close>, \<open>Size\<close> and \<open>MD5sum\<close>
  fields, followed by the three fields built from the arguments.
\<close>

theorem format_parse_roundtrip:
  assumes "\<forall>(k, v)\<in>set entries. k \<noteq> [] \<and> colon \<notin> set k \<and> no_linebreak k \<and> strip k = k \<and>
                                  no_linebreak v \<and> strip v = v"
    and "no_linebreak filename" "strip filename = filename"
    and "no_linebreak md5hex" "strip md5hex = md5hex"
  shows "parse_fields (format_entry entries filename size' md5hex) =
           filter (\<lambda>(k, v). k \<noteq> py ''Filename'' \<and> k \<noteq> py ''Size'' \<and> k \<noteq> py ''MD5sum'') entries @
           [(py ''Filename'', filename), (py ''Size'', str_int size'), (py ''MD5sum'', md5hex)]"
proof -
  let ?kept = "filter (\<lambda>(k, v). k \<notin> set reserved_keys) entries"
  let ?fs = "?kept @
       [(py ''Filename'', filename), (py ''Size'', str_int size'), (py ''MD5sum'', md5hex)]"
  have keys: "colon \<notin> set (py s) \<and> no_linebreak (py s) \<and> strip (py s) = py s"
    if "s \<in> {''Filename'', ''Size'', ''MD5sum''}" for s
    using that
    by (auto simp: py_def colon_def no_linebreak_def is_linebreak_def strip_def isspace_def)
  have "\<forall>(k, v)\<in>set ?fs. colon \<notin> set k \<and> no_linebreak k \<and> strip k = k \<and>
                           no_linebreak v \<and> strip v = v"
    using assms keys str_int_plain [of size'] by auto
  then have "parse_fields (concat (map (\<lambda>(k, v). k @ py '': '' @ v @ [LF]) ?fs) @ [LF]) = ?fs"
    by (rule parse_rendered_fields)
  moreover have "?kept =
      filter (\<lambda>(k, v). k \<noteq> py ''Filename'' \<and> k \<noteq> py ''Size'' \<and> k \<noteq> py ''MD5sum'') entries"
    by (simp add: reserved_keys_def)
  ultimately show ?thesis by (simp only: format_entry_text)
qed

theorem format_parse_roundtrip_witness:
  "parse_fields (format_entry [(py ''Package'', py ''x''), (py ''Size'', py ''3'')]
                   (py ''debs/x.deb'') 12 (py ''0f'')) =
     [(py ''Package'', py ''x''), (py ''Filename'', py ''debs/x.deb''),
      (py ''Size'', py ''12''), (py ''MD5sum'', py ''0f'')]"
  using format_parse_roundtrip [of "[(py ''Package'', py ''x''), (py ''Size'', py ''3'')]"
          "py ''debs/x.deb''" "py ''0f''" 12]
  by (simp add: py_def colon_def no_linebreak_def is_linebreak_def strip_def isspace_def
        str_int_def str_nat.simps)

text \<open>
  The round trip as claim C10 states it fails on a key that ends in a space: the key is
  non-empty, holds no colon and does not start with whitespace, the value is one non-empty
  line, and the parser returns the key stripped.  It fails in the same way on a value that
  ends in a space, on a value that holds a form feed, where \<open>splitlines\<close> breaks the line
  and \<open>split("\n")\<close> does not, and on a file name that ends in a space.
\<close>

theorem format_parse_roundtrip_counterexample:
  "py ''Package '' \<noteq> [] \<and> colon \<notin> set (py ''Package '') \<and> \<not> isspace (hd (py ''Package '')) \<and>
   split_on LF (py ''x'') = [py ''x''] \<and>
   parse_fields (format_entry [(py ''Package '', py ''x'')] (py ''debs/x.deb'') 12 (py ''0f'')) =
     [(py ''Package'', py ''x''), (py ''Filename'', py ''debs/x.deb''),
      (py ''Size'', py ''12''), (py ''MD5sum'', py ''0f'')] \<and>
   parse_fields (format_entry [(py ''Package '', py ''x'')] (py ''debs/x.deb'') 12 (py ''0f'')) \<noteq>
     [(py ''Package '', py ''x''), (py ''Filename'', py ''debs/x.deb''),
      (py ''Size'', py ''12''), (py ''MD5sum'', py ''0f'')] \<and>
   split_on LF (py ''x '') = [py ''x ''] \<and>
   parse_fields (format_entry [(py ''Package'', py ''x '')] (py ''debs/x.deb'') 12 (py ''0f'')) =
     [(py ''Package'', py ''x''), (py ''Filename'', py ''debs/x.deb''),
      (py ''Size'', py ''12''), (py ''MD5sum'', py ''0f'')] \<and>
   split_on LF (py ''x'' @ [12] @ py ''y'') = [py ''x'' @ [12] @ py ''y''] \<and>
   parse_fields (format_entry [(py ''Package'', py ''x'' @ [12] @ py ''y'')]
                   (py ''debs/x.deb'') 12 (py ''0f'')) =
     [(py ''Package'', py ''x''), (py ''Filename'', py ''debs/x.deb''),
      (py ''Size'', py ''12''), (py ''MD5sum'', py ''0f'')] \<and>
   parse_fields (format_entry [(py ''Package'', py ''x'')] (py ''debs/x.deb '') 12 (py ''0f'')) =
     [(py ''Package'', py ''x''), (py ''Filename'', py ''debs/x.deb''),
      (py ''Size'', py ''12''), (py ''MD5sum'', py ''0f'')]"
  by (simp add: format_entry_text reserved_keys_def parse_fields_def splitlines_def parse_line_def
        py_def colon_def LF_def CR_def is_linebreak_def strip_def isspace_def
        str_int_def str_nat.simps Let_def)

text \<open>
  Claim C3 at a control text with a continuation line: the line \<open>" long line"\<close> follows
  the field \<open>Description\<close> and starts with a space, and the value returned for
  \<open>Description\<close> is \<open>"short"\<close> alone.  The continuation was added to the list \<open>last\<close>,
  not to the tuple already appended to \<open>entries\<close>.
\<close>

theorem parse_fields_continuation_lost:
  "parse_fields (py ''Package: x\<newline>Description: short\<newline> long line\<newline>Version: 1\<newline>'') =
     [(py ''Package'', py ''x''), (py ''Description'', py ''short''), (py ''Version'', py ''1'')]"
  by (simp add: parse_fields_def splitlines_def parse_line_def
        py_def colon_def LF_def CR_def is_linebreak_def strip_def isspace_def Let_def)

section \<open>\<open>extract_control_fields\<close> and \<open>build_packages\<close>\<close>

lemma find_None_set: "find P xs = None \<longleftrightarrow> \<not> (\<exists>x\<in>set xs. P x)"
  by (induction xs) auto

lemma find_Some_P: "find P xs = Some x \<Longrightarrow> P x \<and> x \<in> set xs"
  by (induction xs) (auto split: if_splits)

lemma is_control_tar_nonempty: "is_control_tar n \<Longrightarrow> n \<noteq> []"
  by (auto simp: is_control_tar_def startswith_def py_def)

lemma extract_control_fields_success:
  assumes "ar_t w deb = Inr out"
    and "\<And>cm. find is_control_tar (splitlines out) = Some cm \<Longrightarrow>
           ar_p w deb cm = Inr blob \<and> tar_open w (tar_mode cm) blob = Inr () \<and>
           tar_getmembers w (tar_mode cm) blob = Inr members \<and>
           (\<forall>m. find is_control_file members = Some m \<longrightarrow> member_data m = Inr data)"
  shows "((\<exists>msg. extract_control_fields w deb = Inl (RuntimeError msg)) \<longleftrightarrow>
            \<not> (\<exists>n\<in>set (splitlines out). startswith n (py ''control.tar.'')) \<or>
            \<not> (\<exists>m\<in>set members. isfile m \<and>
                   last (split_on slash (member_name m)) = py ''control'')) \<and>
         ((\<exists>n\<in>set (splitlines out). startswith n (py ''control.tar.'')) \<and>
          (\<exists>m\<in>set members. isfile m \<and>
                   last (split_on slash (member_name m)) = py ''control'') \<longrightarrow>
          extract_control_fields w deb = Inr (parse_fields (decode_replace w data)))"
proof (cases "find is_control_tar (splitlines out)")
  case None
  then have "\<not> (\<exists>n\<in>set (splitlines out). startswith n (py ''control.tar.''))"
    by (simp add: find_None_set is_control_tar_def)
  moreover have "extract_control_fields w deb =
      Inl (RuntimeError (py ''No control.tar.* found in '' @ deb))"
    by (simp add: extract_control_fields_def assms(1) None)
  ultimately show ?thesis by simp
next
  case (Some cm)
  from find_Some_P [OF Some] have cm: "cm \<noteq> []"
    and listed: "\<exists>n\<in>set (splitlines out). startswith n (py ''control.tar.'')"
    by (auto simp: is_control_tar_nonempty is_control_tar_def)
  from assms(2) [OF Some] have ext: "ar_p w deb cm = Inr blob"
    "tar_open w (tar_mode cm) blob = Inr ()"
    "tar_getmembers w (tar_mode cm) blob = Inr members"
    and rd: "\<And>m. find is_control_file members = Some m \<Longrightarrow> member_data m = Inr data"
    by simp_all
  have run: "extract_control_fields w deb =
      (case find is_control_file members of
         None \<Rightarrow> Inl (RuntimeError (py ''control file not found inside '' @ deb))
       | Some member \<Rightarrow>
           (case member_data member of
              Inl e \<Rightarrow> Inl e
            | Inr data \<Rightarrow> Inr (parse_fields (decode_replace w data))))"
    by (simp add: extract_control_fields_def assms(1) Some cm ext)
  show ?thesis
  proof (cases "find is_control_file members")
    case None
    then have "\<not> (\<exists>m\<in>set members. isfile m \<and>
                   last (split_on slash (member_name m)) = py ''control'')"
      by (simp add: find_None_set is_control_file_def)
    with run None show ?thesis by simp
  next
    case (Some m)
    from find_Some_P [OF Some]
    have "\<exists>m\<in>set members. isfile m \<and> last (split_on slash (member_name m)) = py ''control''"
      by (auto simp: is_control_file_def)
    with run Some rd [OF Some] listed show ?thesis by simp
  qed
qed

lemma extract_control_fields_raises:
  "ar_t w deb = Inl e \<Longrightarrow> extract_control_fields w deb = Inl e"
  "ar_t w deb = Inr out \<Longrightarrow> find is_control_tar (splitlines out) = Some cm \<Longrightarrow>
     ar_p w deb cm = Inl e \<Longrightarrow> extract_control_fields w deb = Inl e"
  "ar_t w deb = Inr out \<Longrightarrow> find is_control_tar (splitlines out) = Some cm \<Longrightarrow>
     ar_p w deb cm = Inr blob \<Longrightarrow> tar_open w (tar_mode cm) blob = Inl e \<Longrightarrow>
     extract_control_fields w deb = Inl e"
  "ar_t w deb = Inr out \<Longrightarrow> find is_control_tar (splitlines out) = Some cm \<Longrightarrow>
     ar_p w deb cm = Inr blob \<Longrightarrow> tar_open w (tar_mode cm) blob = Inr () \<Longrightarrow>
     tar_getmembers w (tar_mode cm) blob = Inl e \<Longrightarrow> extract_control_fields w deb = Inl e"
  "ar_t w deb = Inr out \<Longrightarrow> find is_control_tar (splitlines out) = Some cm \<Longrightarrow>
     ar_p w deb cm = Inr blob \<Longrightarrow> tar_open w (tar_mode cm) blob = Inr () \<Longrightarrow>
     tar_getmembers w (tar_mode cm) blob = Inr members \<Longrightarrow>
     find is_control_file members = Some m \<Longrightarrow> member_data m = Inl e \<Longrightarrow>
     extract_control_fields w deb = Inl e"
  using is_control_tar_nonempty [of cm] find_Some_P [of is_control_tar "splitlines out" cm]
  by (simp_all add: extract_control_fields_def)

text \<open>
  Claim C8, amended.  Suppose every call to \<open>ar\<close> and \<open>tarfile\<close> that the function makes
  succeeds: \<open>ar t\<close> gives a listing; when the listing has a member whose name starts with
  \<open>control.tar.\<close>, \<open>ar p\<close> gives the bytes of the first such member and
  \<open>tarfile.open\<close> and \<open>getmembers()\<close> succeed on them; and when the tarball has a
  regular-file member whose base name is \<open>control\<close>, \<open>extractfile(member).read()\<close> gives
  the bytes of the first such member.  Then \<open>extract_control_fields\<close> raises a
  \<open>RuntimeError\<close> exactly when the listing has no member whose name starts with
  \<open>control.tar.\<close> or the tarball has no regular-file member whose base name is \<open>control\<close>,
  and otherwise returns the fields parsed from the bytes read.  When one of the calls
  raises instead, \<open>extract_control_fields\<close> raises the same exception.
\<close>

theorem extract_control_fields_outcome:
  "(ar_t w deb = Inr out \<and>
    (\<forall>cm. find is_control_tar (splitlines out) = Some cm \<longrightarrow>
       ar_p w deb cm = Inr blob \<and> tar_open w (tar_mode cm) blob = Inr () \<and>
       tar_getmembers w (tar_mode cm) blob = Inr members \<and>
       (\<forall>m. find is_control_file members = Some m \<longrightarrow> member_data m = Inr data)) \<longrightarrow>
    ((\<exists>msg. extract_control_fields w deb = Inl (RuntimeError msg)) \<longleftrightarrow>
        \<not> (\<exists>n\<in>set (splitlines out). startswith n (py ''control.tar.'')) \<or>
        \<not> (\<exists>m\<in>set members. isfile m \<and>
               last (split_on slash (member_name m)) = py ''control'')) \<and>
    ((\<exists>n\<in>set (splitlines out). startswith n (py ''control.tar.'')) \<and>
     (\<exists>m\<in>set members. isfile m \<and>
               last (split_on slash (member_name m)) = py ''control'') \<longrightarrow>
     extract_control_fields w deb = Inr (parse_fields (decode_replace w data)))) \<and>
   (ar_t w deb = Inl e \<longrightarrow> extract_control_fields w deb = Inl e) \<and>
   (ar_t w deb = Inr out \<and> find is_control_tar (splitlines out) = Some cm \<longrightarrow>
      (ar_p w deb cm = Inl e \<longrightarrow> extract_control_fields w deb = Inl e) \<and>
      (ar_p w deb cm = Inr blob \<longrightarrow>
         (tar_open w (tar_mode cm) blob = Inl e \<longrightarrow> extract_control_fields w deb = Inl e) \<and>
         (tar_open w (tar_mode cm) blob = Inr () \<longrightarrow>
            (tar_getmembers w (tar_mode cm) blob = Inl e \<longrightarrow>
               extract_control_fields w deb = Inl e) \<and>
            (tar_getmembers w (tar_mode cm) blob = Inr members \<and>
             find is_control_file members = Some m \<and> member_data m = Inl e \<longrightarrow>
               extract_control_fields w deb = Inl e))))"
proof (intro conjI impI)
  assume h: "ar_t w deb = Inr out \<and>
    (\<forall>cm. find is_control_tar (splitlines out) = Some cm \<longrightarrow>
       ar_p w deb cm = Inr blob \<and> tar_open w (tar_mode cm) blob = Inr () \<and>
       tar_getmembers w (tar_mode cm) blob = Inr members \<and>
       (\<forall>m. find is_control_file members = Some m \<longrightarrow> member_data m = Inr data))"
  then have h1: "ar_t w deb = Inr out"
    and h2: "\<And>cm. find is_control_tar (splitlines out) = Some cm \<Longrightarrow>
       ar_p w deb cm = Inr blob \<and> tar_open w (tar_mode cm) blob = Inr () \<and>
       tar_getmembers w (tar_mode cm) blob = Inr members \<and>
       (\<forall>m. find is_control_file members = Some m \<longrightarrow> member_data m = Inr data)"
    by simp_all
  note ok = extract_control_fields_success [OF h1 h2]
  show "(\<exists>msg. extract_control_fields w deb = Inl (RuntimeError msg)) \<longleftrightarrow>
        \<not> (\<exists>n\<in>set (splitlines out). startswith n (py ''control.tar.'')) \<or>
        \<not> (\<exists>m\<in>set members. isfile m \<and>
               last (split_on slash (member_name m)) = py ''control'')"
    by (rule conjunct1 [OF ok])
  show "extract_control_fields w deb = Inr (parse_fields (decode_replace w data))"
    if "(\<exists>n\<in>set (splitlines out). startswith n (py ''control.tar.'')) \<and>
     (\<exists>m\<in>set members. isfile m \<and>
               last (split_on slash (member_name m)) = py ''control'')"
    using conjunct2 [OF ok] that by (rule mp)
qed (simp_all add: extract_control_fields_raises)

theorem extract_control_fields_outcome_witness:
  "extract_control_fields (sample_world (Inr sample_members)) (py ''x.deb'') =
     Inr [(py ''Package'', py ''x'')]"
proof -
  let ?w = "sample_world (Inr sample_members)"
  let ?out = "py ''debian-binary\<newline>control.tar.zst\<newline>data.tar.zst\<newline>''"
  have calls: "ar_t ?w (py ''x.deb'') = Inr ?out \<and>
    (\<forall>cm. find is_control_tar (splitlines ?out) = Some cm \<longrightarrow>
       ar_p ?w (py ''x.deb'') cm = Inr [1, 2, 3] \<and>
       tar_open ?w (tar_mode cm) [1, 2, 3] = Inr () \<and>
       tar_getmembers ?w (tar_mode cm) [1, 2, 3] = Inr sample_members \<and>
       (\<forall>m. find is_control_file sample_members = Some m \<longrightarrow> member_data m = Inr [80]))"
    by (simp add: sample_world_def sample_members_def is_control_file_def py_def slash_def)
  have listed: "\<exists>n\<in>set (splitlines ?out). startswith n (py ''control.tar.'')"
    by (simp add: splitlines_def startswith_def py_def is_linebreak_def CR_def LF_def)
  have member: "\<exists>m\<in>set sample_members. isfile m \<and>
                  last (split_on slash (member_name m)) = py ''control''"
    by (simp add: sample_members_def py_def slash_def)
  have "extract_control_fields ?w (py ''x.deb'') =
      Inr (parse_fields (decode_replace ?w [80]))"
    by (rule extract_control_fields_outcome [THEN conjunct1, THEN mp, OF calls,
          THEN conjunct2, THEN mp, OF conjI [OF listed member]])
  then show ?thesis
    by (simp add: sample_world_def parse_fields_def splitlines_def parse_line_def
          py_def colon_def LF_def CR_def is_linebreak_def strip_def isspace_def Let_def)
qed

text \<open>
  Claim C8 as stated fails when a tool fails: the listing has the member
  \<open>control.tar.zst\<close>, \<open>tarfile\<close> cannot open it and raises \<open>ReadError\<close>, and the function
  neither raises a \<open>RuntimeError\<close> nor returns.
\<close>

theorem extract_control_fields_counterexample:
  "ar_t (sample_world (Inl ReadError)) (py ''x.deb'') =
     Inr (py ''debian-binary\<newline>control.tar.zst\<newline>data.tar.zst\<newline>'') \<and>
   find is_control_tar
     (splitlines (py ''debian-binary\<newline>control.tar.zst\<newline>data.tar.zst\<newline>'')) =
     Some (py ''control.tar.zst'') \<and>
   extract_control_fields (sample_world (Inl ReadError)) (py ''x.deb'') = Inl ReadError"
  by (simp add: extract_control_fields_def sample_world_def splitlines_def is_control_tar_def
        startswith_def py_def is_linebreak_def CR_def LF_def)

lemma build_loop_iff:
  "build_loop w acc debs = Inr es \<longleftrightarrow>
     (\<exists>entries.
        list_all2 (\<lambda>deb entry. \<exists>control data.
            extract_control_fields w deb = Inr control \<and> read_bytes w deb = Inr data \<and>
            entry = format_entry control (py ''debs/'' @ deb) (int (length data))
                      (md5_hexdigest w data)) debs entries \<and>
        es = acc @ entries)"
proof (induction debs arbitrary: acc)
  case Nil
  show ?case by auto
next
  case (Cons deb debs)
  show ?case
  proof (cases "extract_control_fields w deb")
    case (Inl e)
    then show ?thesis by (auto simp: list_all2_Cons1)
  next
    case control: (Inr control)
    show ?thesis
    proof (cases "read_bytes w deb")
      case (Inl e)
      with control show ?thesis by (auto simp: list_all2_Cons1)
    next
      case (Inr data)
      with control show ?thesis
        by (auto simp: Cons.IH list_all2_Cons1 Let_def)
    qed
  qed
qed

lemma list_all2_right: "list_all2 R xs ys \<Longrightarrow> y \<in> set ys \<Longrightarrow> \<exists>x. R x y"
  by (induction rule: list_all2_induct) auto

lemma format_entry_blank_line: "endswith (format_entry control rel n md5hex) [LF, LF]"
  by (simp add: format_entry_def endswith_def Let_def)

text \<open>
  Claim C2.  \<open>build_packages\<close> returns a text exactly when \<open>extract_control_fields\<close>
  and \<open>read_bytes\<close> succeed on every entry of the directory whose suffix is \<open>.deb\<close>, and
  the text is then the concatenation, over these entries in sorted order, of the entry
  that \<open>format_entry\<close> makes of the archive's control fields, relative path, size and
  digest; each entry ends in an empty line.
\<close>

theorem build_packages_content:
  "build_packages w deb_dir = Inr content \<longleftrightarrow>
     (\<exists>entries.
        list_all2 (\<lambda>deb entry. \<exists>control data.
            extract_control_fields w deb = Inr control \<and> read_bytes w deb = Inr data \<and>
            entry = format_entry control (py ''debs/'' @ deb) (int (length data))
                      (md5_hexdigest w data))
          (sort (filter (\<lambda>p. suffix p = py ''.deb'') deb_dir)) entries \<and>
        (\<forall>entry\<in>set entries. endswith entry [LF, LF]) \<and>
        content = concat entries)"
proof -
  let ?R = "\<lambda>deb entry. \<exists>control data.
            extract_control_fields w deb = Inr control \<and> read_bytes w deb = Inr data \<and>
            entry = format_entry control (py ''debs/'' @ deb) (int (length data))
                      (md5_hexdigest w data)"
  let ?debs = "sort (filter (\<lambda>p. suffix p = py ''.deb'') deb_dir)"
  have blank: "\<forall>entry\<in>set entries. endswith entry [LF, LF]"
    if "list_all2 ?R ?debs entries" for entries
  proof
    fix entry assume "entry \<in> set entries"
    with that obtain deb where "?R deb entry"
      using list_all2_right [of ?R ?debs entries entry] by blast
    then show "endswith entry [LF, LF]"
      using format_entry_blank_line by auto
  qed
  have "build_packages w deb_dir = Inr content \<longleftrightarrow>
          (\<exists>entries. build_loop w [] ?debs = Inr entries \<and> content = concat entries)"
    by (auto simp: build_packages_def split: sum.splits)
  also have "\<dots> \<longleftrightarrow> (\<exists>entries. list_all2 ?R ?debs entries \<and> content = concat entries)"
    by (simp add: build_loop_iff)
  also have "\<dots> \<longleftrightarrow> (\<exists>entries. list_all2 ?R ?debs entries \<and>
        (\<forall>entry\<in>set entries. endswith entry [LF, LF]) \<and> content = concat entries)"
    using blank by blast
  finally show ?thesis .
qed

text \<open>
  Claim C1.  In the text that \<open>build_packages\<close> returns, the entry of each processed
  archive ends with the fields \<open>Filename\<close>, holding \<open>debs/\<close> followed by the archive's
  name, \<open>Size\<close>, holding the decimal length of the bytes of the archive, and \<open>MD5sum\<close>,
  holding the MD5 hex digest of these bytes.
\<close>

theorem build_packages_entry_fields:
  assumes "build_packages w deb_dir = Inr content"
  shows "\<exists>entries.
     list_all2 (\<lambda>deb entry. \<exists>control data.
         extract_control_fields w deb = Inr control \<and> read_bytes w deb = Inr data \<and>
         entry =
           concat (map (\<lambda>(k, v). k @ py '': '' @ v @ [LF])
             (filter (\<lambda>(k, v). k \<noteq> py ''Filename'' \<and> k \<noteq> py ''Size'' \<and> k \<noteq> py ''MD5sum'')
                control)) @
           py ''Filename: '' @ py ''debs/'' @ deb @ [LF] @
           py ''Size: '' @ str_int (int (length data)) @ [LF] @
           py ''MD5sum: '' @ md5_hexdigest w data @ [LF] @ [LF])
       (sort (filter (\<lambda>p. suffix p = py ''.deb'') deb_dir)) entries \<and>
     content = concat entries"
proof -
  from assms obtain entries where
    "build_loop w [] (sort (filter (\<lambda>p. suffix p = py ''.deb'') deb_dir)) = Inr entries"
    and content: "content = concat entries"
    by (auto simp: build_packages_def split: sum.splits)
  then have "list_all2 (\<lambda>deb entry. \<exists>control data.
            extract_control_fields w deb = Inr control \<and> read_bytes w deb = Inr data \<and>
            entry = format_entry control (py ''debs/'' @ deb) (int (length data))
                      (md5_hexdigest w data))
          (sort (filter (\<lambda>p. suffix p = py ''.deb'') deb_dir)) entries"
    by (simp add: build_loop_iff)
  then have "list_all2 (\<lambda>deb entry. \<exists>control data.
         extract_control_fields w deb = Inr control \<and> read_bytes w deb = Inr data \<and>
         entry =
           concat (map (\<lambda>(k, v). k @ py '': '' @ v @ [LF])
             (filter (\<lambda>(k, v). k \<noteq> py ''Filename'' \<and> k \<noteq> py ''Size'' \<and> k \<noteq> py ''MD5sum'')
                control)) @
           py ''Filename: '' @ py ''debs/'' @ deb @ [LF] @
           py ''Size: '' @ str_int (int (length data)) @ [LF] @
           py ''MD5sum: '' @ md5_hexdigest w data @ [LF] @ [LF])
       (sort (filter (\<lambda>p. suffix p = py ''.deb'') deb_dir)) entries"
    by (rule list_all2_mono) (auto simp: format_entry_text reserved_keys_def py_def)
  with content show ?thesis by blast
qed

lemma drop_endswith: "drop i n = s \<Longrightarrow> s \<noteq> [] \<Longrightarrow> endswith n s"
proof -
  assume d: "drop i n = s" and ne: "s \<noteq> []"
  then have len: "length s = length n - i" by auto
  with ne have "i < length n" by (cases "i < length n") auto
  with len have "length n - length s = i" by simp
  with d len show ?thesis by (simp add: endswith_def)
qed

lemma suffix_endswith: "suffix n = py ''.deb'' \<Longrightarrow> endswith n (py ''.deb'')"
proof -
  assume s: "suffix n = py ''.deb''"
  have ne: "py ''.deb'' \<noteq> []" by (simp add: py_def)
  from s ne obtain i where "drop i n = py ''.deb''"
    by (auto simp: suffix_def split: option.splits if_splits)
  then show ?thesis using ne by (rule drop_endswith)
qed

lemma extract_control_fields_agree:
  assumes "ar_t w' deb = ar_t w deb" "ar_p w' deb = ar_p w deb"
    and "tar_open w' = tar_open w"
    and "tar_getmembers w' = tar_getmembers w" "decode_replace w' = decode_replace w"
  shows "extract_control_fields w' deb = extract_control_fields w deb"
  unfolding extract_control_fields_def assms by (rule refl)

lemma build_loop_agree:
  assumes "\<forall>deb\<in>set debs. ar_t w' deb = ar_t w deb \<and> ar_p w' deb = ar_p w deb \<and>
                            read_bytes w' deb = read_bytes w deb"
    and "tar_open w' = tar_open w"
    and "tar_getmembers w' = tar_getmembers w" "decode_replace w' = decode_replace w"
    and "md5_hexdigest w' = md5_hexdigest w"
  shows "build_loop w' acc debs = build_loop w acc debs"
  using assms(1)
proof (induction debs arbitrary: acc)
  case Nil
  show ?case by simp
next
  case (Cons deb debs)
  then have ex: "extract_control_fields w' deb = extract_control_fields w deb"
    by (intro extract_control_fields_agree assms) simp_all
  from Cons.prems have rb: "read_bytes w' deb = read_bytes w deb" by simp
  from Cons.prems have ih: "\<And>acc. build_loop w' acc debs = build_loop w acc debs"
    by (intro Cons.IH) simp
  show ?case
    unfolding build_loop.simps ex rb assms(5) ih by (rule refl)
qed

text \<open>
  Claim C7.  An entry of the directory whose name does not end in \<open>.deb\<close> has no part in
  the result of \<open>build_packages\<close>: the result is the same with the entry absent, and the
  same whatever \<open>ar\<close> and \<open>read_bytes\<close> would give for it, so neither is called on it
  and no entry of the index comes from it.
\<close>

theorem build_packages_skips_other_entries:
  assumes "\<not> endswith name' (py ''.deb'')"
  shows "build_packages
           (w\<lparr>ar_t := (ar_t w)(name' := a), ar_p := (ar_p w)(name' := b),
              read_bytes := (read_bytes w)(name' := c)\<rparr>) (before @ name' # after) =
         build_packages w (before @ after)"
proof -
  from assms have skip: "suffix name' \<noteq> py ''.deb''"
    using suffix_endswith by blast
  then have same: "filter (\<lambda>p. suffix p = py ''.deb'') (before @ name' # after) =
               filter (\<lambda>p. suffix p = py ''.deb'') (before @ after)"
    by simp
  from skip have "name' \<notin> set (sort (filter (\<lambda>p. suffix p = py ''.deb'') (before @ after)))"
    by auto
  then have "build_loop (w\<lparr>ar_t := (ar_t w)(name' := a), ar_p := (ar_p w)(name' := b),
                 read_bytes := (read_bytes w)(name' := c)\<rparr>) []
                (sort (filter (\<lambda>p. suffix p = py ''.deb'') (before @ after))) =
             build_loop w [] (sort (filter (\<lambda>p. suffix p = py ''.deb'') (before @ after)))"
    by (intro build_loop_agree) auto
  then show ?thesis
    unfolding build_packages_def same by (simp only:)
qed

lemma sample_extract:
  "extract_control_fields (sample_world (Inr sample_members)) deb =
     Inr [(py ''Package'', py ''x'')]"
  by (simp add: extract_control_fields_def sample_world_def sample_members_def
        is_control_tar_def is_control_file_def startswith_def slash_def
        parse_fields_def splitlines_def parse_line_def
        py_def colon_def LF_def CR_def is_linebreak_def strip_def isspace_def Let_def)

lemma sample_suffix:
  "suffix (py ''a.deb'') = py ''.deb''" "suffix (py ''b.deb'') = py ''.deb''"
  "suffix (py ''notes.txt'') \<noteq> py ''.deb''"
  by (simp_all add: suffix_def rfind_def py_def dot_def upt_rec nth_Cons')

lemma sample_build:
  "build_packages (sample_world (Inr sample_members))
     [py ''b.deb'', py ''notes.txt'', py ''a.deb''] =
   Inr (py ''Package: x\<newline>Filename: debs/a.deb\<newline>Size: 3\<newline>MD5sum: 0f\<newline>\<newline>'' @
        py ''Package: x\<newline>Filename: debs/b.deb\<newline>Size: 3\<newline>MD5sum: 0f\<newline>\<newline>'')"
proof -
  have srt: "sort [py ''b.deb'', py ''a.deb''] = [py ''a.deb'', py ''b.deb'']"
    by (simp add: py_def)
  have rb: "read_bytes (sample_world (Inr sample_members)) deb = Inr [33, 60, 97]"
    "md5_hexdigest (sample_world (Inr sample_members)) data = py ''0f''" for deb data
    by (simp_all add: sample_world_def)
  have fe: "format_entry [(py ''Package'', py ''x'')] rel 3 (py ''0f'') =
     py ''Package: x\<newline>Filename: '' @ rel @ py ''\<newline>Size: 3\<newline>MD5sum: 0f\<newline>\<newline>''" for rel
    by (simp add: format_entry_text reserved_keys_def py_def str_int_def str_nat.simps LF_def)
  show ?thesis
    by (simp add: build_packages_def sample_suffix srt sample_extract rb fe Let_def)
       (simp add: py_def)
qed

theorem build_packages_content_witness:
  "build_packages (sample_world (Inr sample_members))
     [py ''b.deb'', py ''notes.txt'', py ''a.deb''] =
   Inr (py ''Package: x\<newline>Filename: debs/a.deb\<newline>Size: 3\<newline>MD5sum: 0f\<newline>\<newline>'' @
        py ''Package: x\<newline>Filename: debs/b.deb\<newline>Size: 3\<newline>MD5sum: 0f\<newline>\<newline>'') \<and>
   (\<exists>entries.
        list_all2 (\<lambda>deb entry. \<exists>control data.
            extract_control_fields (sample_world (Inr sample_members)) deb = Inr control \<and>
            read_bytes (sample_world (Inr sample_members)) deb = Inr data \<and>
            entry = format_entry control (py ''debs/'' @ deb) (int (length data))
                      (md5_hexdigest (sample_world (Inr sample_members)) data))
          (sort (filter (\<lambda>p. suffix p = py ''.deb'')
             [py ''b.deb'', py ''notes.txt'', py ''a.deb''])) entries \<and>
        (\<forall>entry\<in>set entries. endswith entry [LF, LF]) \<and>
        py ''Package: x\<newline>Filename: debs/a.deb\<newline>Size: 3\<newline>MD5sum: 0f\<newline>\<newline>'' @
        py ''Package: x\<newline>Filename: debs/b.deb\<newline>Size: 3\<newline>MD5sum: 0f\<newline>\<newline>'' =
          concat entries)"
  using sample_build iffD1 [OF build_packages_content sample_build] by (rule conjI)

theorem build_packages_entry_fields_witness:
  "\<exists>entries.
     list_all2 (\<lambda>deb entry. \<exists>control data.
         extract_control_fields (sample_world (Inr sample_members)) deb = Inr control \<and>
         read_bytes (sample_world (Inr sample_members)) deb = Inr data \<and>
         entry =
           concat (map (\<lambda>(k, v). k @ py '': '' @ v @ [LF])
             (filter (\<lambda>(k, v). k \<noteq> py ''Filename'' \<and> k \<noteq> py ''Size'' \<and> k \<noteq> py ''MD5sum'')
                control)) @
           py ''Filename: '' @ py ''debs/'' @ deb @ [LF] @
           py ''Size: '' @ str_int (int (length data)) @ [LF] @
           py ''MD5sum: '' @ md5_hexdigest (sample_world (Inr sample_members)) data @ [LF] @ [LF])
       (sort (filter (\<lambda>p. suffix p = py ''.deb'')
          [py ''b.deb'', py ''notes.txt'', py ''a.deb''])) entries \<and>
     py ''Package: x\<newline>Filename: debs/a.deb\<newline>Size: 3\<newline>MD5sum: 0f\<newline>\<newline>'' @
     py ''Package: x\<newline>Filename: debs/b.deb\<newline>Size: 3\<newline>MD5sum: 0f\<newline>\<newline>'' =
       concat entries"
  by (rule build_packages_entry_fields [OF sample_build])

theorem build_packages_skips_other_entries_witness:
  "build_packages
     ((sample_world (Inr sample_members))
        \<lparr>ar_t := (ar_t (sample_world (Inr sample_members)))
                   (py ''notes.txt'' := Inl CalledProcessError),
         ar_p := (ar_p (sample_world (Inr sample_members)))
                   (py ''notes.txt'' := (\<lambda>member. Inl CalledProcessError)),
         read_bytes := (read_bytes (sample_world (Inr sample_members)))
                   (py ''notes.txt'' := Inl OSError)\<rparr>)
     ([py ''b.deb''] @ py ''notes.txt'' # [py ''a.deb'']) =
   build_packages (sample_world (Inr sample_members)) ([py ''b.deb''] @ [py ''a.deb''])"
proof -
  have other: "\<not> endswith (py ''notes.txt'') (py ''.deb'')"
    by (simp add: endswith_def py_def)
  show ?thesis
    by (rule build_packages_skips_other_entries [OF other])
qed

section \<open>\<open>update_release\<close> and \<open>main\<close>: results\<close>

lemma strip_header: "strip (py ''MD5Sum:'') = py ''MD5Sum:''"
  by (simp add: strip_def py_def isspace_def)

lemma header_loop_eq:
  "header_loop acc lines =
     acc @ takeWhile (\<lambda>line. strip line \<noteq> py ''MD5Sum:'') lines @
     (case dropWhile (\<lambda>line. strip line \<noteq> py ''MD5Sum:'') lines of
        [] \<Rightarrow> [py ''MD5Sum:'']
      | line # _ \<Rightarrow> [line])"
  by (induction lines arbitrary: acc) (simp_all add: Let_def)

lemma index_of_append:
  "\<forall>x\<in>set xs. x \<noteq> y \<Longrightarrow>
   index_of (xs @ zs) y = (case index_of zs y of Inl e \<Rightarrow> Inl e | Inr i \<Rightarrow> Inr (length xs + i))"
  by (induction xs) (auto split: sum.splits)

lemma header_loop_cases:
  "(header_loop [] lines = lines @ [py ''MD5Sum:''] \<and>
      takeWhile (\<lambda>line. strip line \<noteq> py ''MD5Sum:'') lines = lines \<and>
      (\<forall>line\<in>set lines. strip line \<noteq> py ''MD5Sum:'')) \<or>
   (\<exists>line rest.
      header_loop [] lines = takeWhile (\<lambda>line. strip line \<noteq> py ''MD5Sum:'') lines @ [line] \<and>
      dropWhile (\<lambda>line. strip line \<noteq> py ''MD5Sum:'') lines = line # rest \<and>
      strip line = py ''MD5Sum:'')"
proof -
  let ?P = "\<lambda>line. strip line \<noteq> py ''MD5Sum:''"
  show ?thesis
  proof (cases "dropWhile ?P lines")
    case Nil
    then have all: "takeWhile ?P lines = lines"
      by (metis append_Nil2 takeWhile_dropWhile_id)
    have "header_loop [] lines = lines @ [py ''MD5Sum:'']"
      by (simp only: header_loop_eq Nil all list.case append_Nil)
    moreover from Nil have "\<forall>line\<in>set lines. strip line \<noteq> py ''MD5Sum:''"
      by simp
    ultimately show ?thesis using all by blast
  next
    case (Cons line rest)
    have "header_loop [] lines = takeWhile ?P lines @ [line]"
      by (simp only: header_loop_eq Cons list.case append_Nil)
    moreover from Cons have "strip line = py ''MD5Sum:''"
      using hd_dropWhile [of ?P lines] by auto
    ultimately show ?thesis using Cons by blast
  qed
qed

lemma index_of_last:
  "\<forall>x\<in>set xs. x \<noteq> y \<Longrightarrow>
   index_of (xs @ [z]) y = (if z = y then Inr (length xs) else Inl ValueError)"
  by (simp add: index_of_append)

lemma not_header: "strip line \<noteq> py ''MD5Sum:'' \<Longrightarrow> line \<noteq> py ''MD5Sum:''"
  using strip_header by auto

lemma take_header:
  assumes "index_of (header_loop [] lines) (py ''MD5Sum:'') = Inr i"
  shows "take i (header_loop [] lines) = takeWhile (\<lambda>line. strip line \<noteq> py ''MD5Sum:'') lines"
proof -
  let ?P = "\<lambda>line. strip line \<noteq> py ''MD5Sum:''"
  have other: "\<forall>x\<in>set (takeWhile ?P lines). x \<noteq> py ''MD5Sum:''"
    using not_header by (auto dest: set_takeWhileD)
  from header_loop_cases [of lines] show ?thesis
  proof (elim disjE conjE exE)
    assume hl: "header_loop [] lines = lines @ [py ''MD5Sum:'']"
      and all: "takeWhile ?P lines = lines"
    from other all have "\<forall>x\<in>set lines. x \<noteq> py ''MD5Sum:''" by simp
    with assms hl have "i = length lines"
      by (simp add: index_of_last)
    then have "take i (header_loop [] lines) = lines"
      by (simp add: hl)
    then show ?thesis by (simp only: all)
  next
    fix line rest
    assume hl: "header_loop [] lines = takeWhile ?P lines @ [line]"
    from assms have "i = length (takeWhile ?P lines)"
      unfolding hl index_of_last [OF other] by (simp split: if_splits)
    with hl show ?thesis by simp
  qed
qed

lemma update_release_result:
  assumes "update_release w fs packages_content = Inr fs'"
  shows "\<exists>release_text encoded bz2_bytes.
           release fs = Some release_text \<and> encode_utf8 w packages_content = Inr encoded \<and>
           packages_bz2 fs = Some bz2_bytes \<and>
           fs' = fs\<lparr>release := Some
             (join [LF] (takeWhile (\<lambda>line. strip line \<noteq> py ''MD5Sum:'')
                           (splitlines release_text)) @
              py ''\<newline>MD5Sum:\<newline>'' @
              md5_block (md5_hexdigest w encoded) (length encoded)
                (md5_hexdigest w bz2_bytes) (length bz2_bytes))\<rparr>"
proof -
  from assms obtain release_text encoded bz2_bytes where
    r: "release fs = Some release_text" and e: "encode_utf8 w packages_content = Inr encoded"
    and b: "packages_bz2 fs = Some bz2_bytes"
    by (auto simp: update_release_def split: option.splits sum.splits)
  from assms r e b obtain i where
    i: "index_of (header_loop [] (splitlines release_text)) (py ''MD5Sum:'') = Inr i"
    by (auto simp: update_release_def Let_def split: sum.splits)
  from assms show ?thesis
    by (simp add: update_release_def r e b i Let_def take_header [OF i])
qed

lemma no_linebreak_Nil: "no_linebreak []"
  by (simp add: no_linebreak_def)

lemma no_linebreak_snoc: "no_linebreak cur \<Longrightarrow> \<not> is_linebreak c \<Longrightarrow> no_linebreak (cur @ [c])"
  by (simp add: no_linebreak_def)

lemma splitlines_from_no_linebreak:
  "no_linebreak cur \<Longrightarrow> l \<in> set (splitlines_from cur s) \<Longrightarrow> no_linebreak l"
proof (induction cur s rule: splitlines_from.induct)
  case (1 cur)
  then show ?case by (simp split: if_splits)
next
  case (2 cur c)
  then show ?case by (auto simp: no_linebreak_snoc split: if_splits)
next
  case (3 cur c d ds)
  show ?case
  proof (cases "is_linebreak c")
    case False
    with 3 show ?thesis by (simp add: no_linebreak_snoc)
  next
    case True
    show ?thesis
    proof (cases "c = CR \<and> d = LF")
      case crlf: True
      with True 3 show ?thesis by (auto simp: no_linebreak_Nil)
    next
      case other: False
      with True 3(2)[OF True other no_linebreak_Nil] 3(4,5) show ?thesis by auto
    qed
  qed
qed

lemma splitlines_no_linebreak: "l \<in> set (splitlines s) \<Longrightarrow> no_linebreak l"
  using splitlines_from_no_linebreak [OF no_linebreak_Nil] by (simp add: splitlines_def)

lemma splitlines_joined_prefix:
  assumes "\<forall>l\<in>set ls. no_linebreak l"
  shows "take (length ls) (splitlines (join [LF] ls @ LF # rest)) = ls"
proof (cases "ls = []")
  case True
  then show ?thesis by simp
next
  case False
  have "join [LF] ls @ LF # rest = (join [LF] ls @ [LF]) @ rest"
    by simp
  also have "\<dots> = concat (map (\<lambda>l. l @ [LF]) ls) @ rest"
    by (simp only: join_snoc_sep [OF False])
  finally have "splitlines (join [LF] ls @ LF # rest) =
      splitlines_from [] (concat (map (\<lambda>l. l @ [LF]) ls) @ rest)"
    by (simp only: splitlines_def)
  also have "\<dots> = ls @ splitlines_from [] rest"
    by (rule splitlines_from_lines [OF assms])
  finally show ?thesis by simp
qed

text \<open>
  Claim C5, amended.  When \<open>update_release\<close> rewrites the manifest, the new text is the
  lines of the old one that come before the first line whose stripped text is \<open>MD5Sum:\<close>,
  joined by line feeds, then the line \<open>MD5Sum:\<close> and the two new checksum lines.  So the
  lines before the header are the first lines of the rewritten manifest, unchanged and in
  order; the header line and every line after it are replaced.
\<close>

theorem update_release_keeps_header:
  assumes "release fs = Some release_text" and "packages_bz2 fs = Some bz2_bytes"
    and "update_release w fs packages_content = Inr fs'"
  shows "\<exists>encoded new_text.
     encode_utf8 w packages_content = Inr encoded \<and>
     release fs' = Some new_text \<and>
     new_text =
       join [LF] (takeWhile (\<lambda>line. strip line \<noteq> py ''MD5Sum:'') (splitlines release_text)) @
       py ''\<newline>MD5Sum:\<newline>'' @
       md5_block (md5_hexdigest w encoded) (length encoded)
         (md5_hexdigest w bz2_bytes) (length bz2_bytes) \<and>
     take (length (takeWhile (\<lambda>line. strip line \<noteq> py ''MD5Sum:'') (splitlines release_text)))
       (splitlines new_text) =
       takeWhile (\<lambda>line. strip line \<noteq> py ''MD5Sum:'') (splitlines release_text)"
proof -
  let ?header = "takeWhile (\<lambda>line. strip line \<noteq> py ''MD5Sum:'') (splitlines release_text)"
  from update_release_result [OF assms(3)] assms(1,2)
  obtain encoded where enc: "encode_utf8 w packages_content = Inr encoded"
    and new: "release fs' = Some (join [LF] ?header @ py ''\<newline>MD5Sum:\<newline>'' @
        md5_block (md5_hexdigest w encoded) (length encoded)
          (md5_hexdigest w bz2_bytes) (length bz2_bytes))"
    by auto
  let ?block = "md5_block (md5_hexdigest w encoded) (length encoded)
         (md5_hexdigest w bz2_bytes) (length bz2_bytes)"
  have "\<forall>l\<in>set ?header. no_linebreak l"
    using splitlines_no_linebreak by (auto dest: set_takeWhileD)
  then have "take (length ?header)
      (splitlines (join [LF] ?header @ LF # (py ''MD5Sum:\<newline>'' @ ?block))) = ?header"
    by (rule splitlines_joined_prefix)
  moreover have "py ''\<newline>MD5Sum:\<newline>'' @ ?block = LF # (py ''MD5Sum:\<newline>'' @ ?block)"
    by (simp add: py_def LF_def)
  ultimately show ?thesis using enc new by simp
qed

lemma update_release_frame:
  "update_release w fs packages_content = Inr fs' \<Longrightarrow>
   packages fs' = packages fs \<and> packages_bz2 fs' = packages_bz2 fs \<and> debs_dir fs' = debs_dir fs"
  using update_release_result [of w fs packages_content fs'] by auto

lemma build_packages_encode:
  "build_packages (w\<lparr>encode_utf8 := f\<rparr>) deb_dir = build_packages w deb_dir"
proof -
  have "build_loop (w\<lparr>encode_utf8 := f\<rparr>) [] debs = build_loop w [] debs" for debs
    by (rule build_loop_agree) simp_all
  then show ?thesis by (simp only: build_packages_def)
qed

text \<open>
  Claim C6.  Once \<open>build_packages\<close> has returned the content, \<open>main\<close> goes one of two
  ways.  When the content cannot be encoded as UTF-8, \<open>main\<close> stops with the exception of
  the encoder, \<open>Packages\<close> is left empty and nothing is written to \<open>Packages.bz2\<close>.
  Otherwise the \<open>Packages\<close> file that \<open>main\<close> leaves holds the UTF-8 encoding of the content
  and \<open>Packages.bz2\<close> holds the bz2 compression of the same bytes, whether or not the
  update of \<open>Release\<close> then succeeds; with a decompression that inverts \<open>bz2.compress\<close>,
  decompressing \<open>Packages.bz2\<close> gives the bytes of \<open>Packages\<close>.  So whatever is written
  to \<open>Packages.bz2\<close> is the compression of what was written to \<open>Packages\<close>.
\<close>

theorem main_packages_bz2:
  assumes "debs_dir fs = Some deb_dir" and "build_packages w deb_dir = Inr packages_content"
  shows "(case encode_utf8 w packages_content of
            Inl e \<Rightarrow> main w fs = (fs\<lparr>packages := Some []\<rparr>, Inl e)
          | Inr encoded \<Rightarrow>
              packages (fst (main w fs)) = Some encoded \<and>
              packages_bz2 (fst (main w fs)) = Some (bz2_compress w encoded) \<and>
              ((\<forall>data. bz2_decompress (bz2_compress w data) = data) \<longrightarrow>
                 map_option bz2_decompress (packages_bz2 (fst (main w fs))) =
                   packages (fst (main w fs))))"
proof (cases "encode_utf8 w packages_content")
  case (Inl e)
  then show ?thesis by (simp add: main_def assms)
next
  case (Inr encoded)
  let ?fs2 = "fs\<lparr>packages := Some encoded, packages_bz2 := Some (bz2_compress w encoded)\<rparr>"
  have "fst (main w fs) = ?fs2 \<or>
        (\<exists>fs3. update_release w ?fs2 packages_content = Inr fs3 \<and> fst (main w fs) = fs3)"
    by (simp add: main_def assms Inr Let_def split: option.splits sum.splits)
  then have "packages (fst (main w fs)) = packages ?fs2 \<and>
             packages_bz2 (fst (main w fs)) = packages_bz2 ?fs2"
    using update_release_frame by auto
  with Inr show ?thesis by simp
qed

lemma sample_update_release:
  "update_release (sample_world tar_result)
     (sample_repo (py ''Origin: x\<newline>MD5Sum:\<newline> 0e 7 Packages\<newline> 0e 9 Packages.bz2\<newline>SHA256:\<newline> 0d 7 Packages\<newline>''))
     (py ''abcd'') =
   Inr (sample_repo (py ''Origin: x\<newline>MD5Sum:\<newline> 0f 4 Packages\<newline> 0f 3 Packages.bz2\<newline>''))"
  by (simp add: update_release_def sample_world_def sample_repo_def splitlines_def md5_block_def
        py_def LF_def CR_def is_linebreak_def strip_def isspace_def str_int_def str_nat.simps
        Let_def)

text \<open>
  Claim C4 at a manifest whose header line is \<open>"MD5Sum: "\<close>, with a space after the
  colon.  The loop stops at this line, because its stripped text is \<open>MD5Sum:\<close>, and
  \<open>header_lines.index("MD5Sum:")\<close> then finds no line equal to \<open>MD5Sum:\<close>:
  \<open>update_release\<close> raises \<open>ValueError\<close> and the manifest keeps its old checksum lines.
  This is so for every content that can be encoded; a content that cannot makes the
  encoder raise before, and the manifest is not rewritten either.
\<close>

theorem update_release_padded_header:
  "update_release w
     (fs\<lparr>release := Some (py ''Origin: x\<newline>MD5Sum: \<newline> 0e 7 Packages\<newline>''),
         packages_bz2 := Some bz2_bytes\<rparr>) packages_content =
   (case encode_utf8 w packages_content of
      Inl e \<Rightarrow> Inl e
    | Inr encoded \<Rightarrow> Inl ValueError)"
  by (simp add: update_release_def splitlines_def
        py_def LF_def CR_def is_linebreak_def strip_def isspace_def Let_def
      split: sum.splits)

theorem update_release_keeps_header_witness:
  "\<exists>encoded new_text.
     encode_utf8 (sample_world (Inr sample_members)) (py ''abcd'') = Inr encoded \<and>
     release (sample_repo (py ''Origin: x\<newline>MD5Sum:\<newline> 0f 4 Packages\<newline> 0f 3 Packages.bz2\<newline>'')) =
       Some new_text \<and>
     new_text =
       join [LF] (takeWhile (\<lambda>line. strip line \<noteq> py ''MD5Sum:'')
         (splitlines (py ''Origin: x\<newline>MD5Sum:\<newline> 0e 7 Packages\<newline> 0e 9 Packages.bz2\<newline>SHA256:\<newline> 0d 7 Packages\<newline>''))) @
       py ''\<newline>MD5Sum:\<newline>'' @
       md5_block (md5_hexdigest (sample_world (Inr sample_members)) encoded) (length encoded)
         (md5_hexdigest (sample_world (Inr sample_members)) [66, 90, 104]) (length [66, 90, 104::nat]) \<and>
     take (length (takeWhile (\<lambda>line. strip line \<noteq> py ''MD5Sum:'')
         (splitlines (py ''Origin: x\<newline>MD5Sum:\<newline> 0e 7 Packages\<newline> 0e 9 Packages.bz2\<newline>SHA256:\<newline> 0d 7 Packages\<newline>''))))
       (splitlines new_text) =
       takeWhile (\<lambda>line. strip line \<noteq> py ''MD5Sum:'')
         (splitlines (py ''Origin: x\<newline>MD5Sum:\<newline> 0e 7 Packages\<newline> 0e 9 Packages.bz2\<newline>SHA256:\<newline> 0d 7 Packages\<newline>''))"
proof -
  have r: "release (sample_repo t) = Some t" and b: "packages_bz2 (sample_repo t) = Some [66, 90, 104]"
    for t by (simp_all add: sample_repo_def)
  show ?thesis
    by (rule update_release_keeps_header [OF r b sample_update_release])
qed

text \<open>
  Claim C5 as stated fails on a manifest with a section after the MD5 block: the line
  \<open>SHA256:\<close> is no checksum line of \<open>Packages\<close> or \<open>Packages.bz2\<close>, and it is not in the
  rewritten manifest.
\<close>

theorem update_release_keeps_header_counterexample:
  "py ''SHA256:'' \<in> set (splitlines (py ''Origin: x\<newline>MD5Sum:\<newline> 0e 7 Packages\<newline> 0e 9 Packages.bz2\<newline>SHA256:\<newline> 0d 7 Packages\<newline>'')) \<and>
   update_release (sample_world (Inr sample_members))
     (sample_repo (py ''Origin: x\<newline>MD5Sum:\<newline> 0e 7 Packages\<newline> 0e 9 Packages.bz2\<newline>SHA256:\<newline> 0d 7 Packages\<newline>''))
     (py ''abcd'') =
   Inr (sample_repo (py ''Origin: x\<newline>MD5Sum:\<newline> 0f 4 Packages\<newline> 0f 3 Packages.bz2\<newline>'')) \<and>
   py ''SHA256:'' \<notin> set (splitlines (py ''Origin: x\<newline>MD5Sum:\<newline> 0f 4 Packages\<newline> 0f 3 Packages.bz2\<newline>''))"
  by (simp add: update_release_def sample_world_def sample_repo_def splitlines_def md5_block_def
        py_def LF_def CR_def is_linebreak_def strip_def isspace_def str_int_def str_nat.simps
        Let_def)

theorem main_packages_bz2_witness:
  "packages (fst (main (sample_world (Inr sample_members)) (sample_repo (py ''MD5Sum:'')))) =
     Some (py ''Package: x\<newline>Filename: debs/a.deb\<newline>Size: 3\<newline>MD5sum: 0f\<newline>\<newline>'' @
           py ''Package: x\<newline>Filename: debs/b.deb\<newline>Size: 3\<newline>MD5sum: 0f\<newline>\<newline>'') \<and>
   packages_bz2 (fst (main (sample_world (Inr sample_members)) (sample_repo (py ''MD5Sum:'')))) =
     packages (fst (main (sample_world (Inr sample_members)) (sample_repo (py ''MD5Sum:'')))) \<and>
   main ((sample_world (Inr sample_members))\<lparr>encode_utf8 := (\<lambda>s. Inl UnicodeEncodeError)\<rparr>)
     (sample_repo (py ''MD5Sum:'')) =
     ((sample_repo (py ''MD5Sum:''))\<lparr>packages := Some []\<rparr>, Inl UnicodeEncodeError)"
proof -
  let ?w = "sample_world (Inr sample_members)"
  let ?w' = "?w\<lparr>encode_utf8 := (\<lambda>s. Inl UnicodeEncodeError)\<rparr>"
  let ?dir = "[py ''b.deb'', py ''notes.txt'', py ''a.deb'']"
  have d: "debs_dir (sample_repo t) = Some ?dir" for t
    by (simp add: sample_repo_def)
  have inv: "\<forall>data. (\<lambda>data. data) (bz2_compress ?w data) = data"
    by (simp add: sample_world_def)
  have enc: "encode_utf8 ?w s = Inr s" for s
    by (simp add: sample_world_def)
  have build': "build_packages ?w' ?dir =
     Inr (py ''Package: x\<newline>Filename: debs/a.deb\<newline>Size: 3\<newline>MD5sum: 0f\<newline>\<newline>'' @
          py ''Package: x\<newline>Filename: debs/b.deb\<newline>Size: 3\<newline>MD5sum: 0f\<newline>\<newline>'')"
    by (simp only: build_packages_encode sample_build)
  from main_packages_bz2 [OF d sample_build, where bz2_decompress = "\<lambda>data. data"] inv
  have ok: "packages (fst (main ?w (sample_repo (py ''MD5Sum:'')))) =
     Some (py ''Package: x\<newline>Filename: debs/a.deb\<newline>Size: 3\<newline>MD5sum: 0f\<newline>\<newline>'' @
           py ''Package: x\<newline>Filename: debs/b.deb\<newline>Size: 3\<newline>MD5sum: 0f\<newline>\<newline>'') \<and>
   packages_bz2 (fst (main ?w (sample_repo (py ''MD5Sum:'')))) =
     packages (fst (main ?w (sample_repo (py ''MD5Sum:''))))"
    by (simp add: enc option.map_ident)
  from main_packages_bz2 [OF d build', where bz2_decompress = "\<lambda>data. data"]
  have "main ?w' (sample_repo (py ''MD5Sum:'')) =
     ((sample_repo (py ''MD5Sum:''))\<lparr>packages := Some []\<rparr>, Inl UnicodeEncodeError)"
    by simp
  with ok show ?thesis by simp
qed

end
